theory Spec2Isabelle
  imports Main "HOL-Library.AList"
begin

section \<open>Values, errors and the process state\<close>

text \<open>
  Strings are HOL strings, read as ASCII text. JSON documents (the result of
  \<^verbatim>\<open>json.loads\<close>) are a datatype; \<open>JNull\<close> is Python's \<^verbatim>\<open>None\<close> and \<open>JObj\<close> a
  \<^verbatim>\<open>dict\<close> in insertion order.
\<close>

datatype json =
    JNull
  | JBool bool
  | JNum int
  | JStr string
  | JArr "json list"
  | JObj "(string \<times> json) list"

text \<open>
  The command handed to \<^verbatim>\<open>subprocess.run\<close>: a string for the shell, or an
  argument vector.
\<close>

datatype cmdline = Shell string | Argv "string list"

text \<open>
  Python exceptions as values. A message is a list of fragments: literal text
  and the values an f-string interpolates, kept as values instead of rendered
  through \<^verbatim>\<open>str\<close> and \<^verbatim>\<open>repr\<close>.

  \<open>CalledProcessError rc cmd output\<close> is \<^verbatim>\<open>subprocess.CalledProcessError\<close>;
  \<open>AttributeError cls attr\<close> reads "cls object has no attribute attr";
  \<open>FileNotFoundError p\<close> names the path or program not found;
  \<open>IndexError\<close> is "list index out of range";
  \<open>ComponentError descr message\<close> is an exception class of a component
  implementation outside this repository, with its \<^verbatim>\<open>message\<close> attribute, if it
  has one.
\<close>

datatype pyerr =
    CalledProcessError int cmdline string
  | JSONDecodeError string
  | FileNotFoundError string
  | AttributeError string string
  | KeyError "frag list"
  | NotImplementedError
  | IndexError
  | SystemExit int
  | ComponentError string "string option"
and frag =
    Txt string
  | FCmd cmdline
  | FErr pyerr
  | FJson json
  | FStrs "string list"

datatype logrec = LogInfo "frag list" | LogError "frag list"

text \<open>One call of \<^verbatim>\<open>subprocess.run\<close>: the command, its standard input, the
  working directory it ran in.\<close>

record exec_event =
  ev_cmd :: cmdline
  ev_input :: "string option"
  ev_cwd :: string

text \<open>\<^verbatim>\<open>subprocess.CompletedProcess\<close>; \<open>stdout\<close> holds standard output and standard
  error together (\<^verbatim>\<open>stderr=subprocess.STDOUT\<close>).\<close>

record completed_process =
  args :: cmdline
  returncode :: int
  stdout :: string

text \<open>What becomes of a command handed to the operating system: it runs and
  exits with a status and its captured output, or it cannot be started.\<close>

datatype run_outcome = Exited int string | CannotStart

text \<open>
  What lies outside the program and does not change during a call:
  \<^item> \<open>fs_dir c p\<close>: the absolute name of the directory that path \<open>p\<close> denotes
    when the working directory is \<open>c\<close>, \<open>None\<close> if \<open>p\<close> is not a directory;
  \<^item> \<open>os_run evs\<close>: the outcome of the command handed over last in \<open>evs\<close>,
    given all those handed over before it;
  \<^item> \<open>json_loads\<close>: \<^verbatim>\<open>json.loads\<close>, \<open>None\<close> where it raises
    \<^verbatim>\<open>JSONDecodeError\<close>.
\<close>

record sys =
  fs_dir :: "string \<Rightarrow> string \<Rightarrow> string option"
  os_run :: "exec_event list \<Rightarrow> run_outcome"
  json_loads :: "string \<Rightarrow> json option"

text \<open>
  The mutable state of the process: working directory, the commands handed to
  the operating system so far, the log records emitted so far, and \<open>w_heap\<close>, the state of the
  component implementations.
\<close>

record 'h world =
  w_cwd :: string
  w_trace :: "exec_event list"
  w_log :: "logrec list"
  w_heap :: 'h

type_synonym ('a, 'h) action = "'h world \<Rightarrow> (pyerr + 'a) \<times> 'h world"

definition logger_info :: "frag list \<Rightarrow> 'h world \<Rightarrow> 'h world" where
  "logger_info m w = w\<lparr>w_log := w_log w @ [LogInfo m]\<rparr>"

definition logger_error :: "frag list \<Rightarrow> 'h world \<Rightarrow> 'h world" where
  "logger_error m w = w\<lparr>w_log := w_log w @ [LogError m]\<rparr>"

text \<open>\<^verbatim>\<open>os.getcwd\<close>, \<^verbatim>\<open>os.chdir\<close> and \<^verbatim>\<open>os.path.isdir\<close>.\<close>

definition os_getcwd :: "'h world \<Rightarrow> string" where
  "os_getcwd w = w_cwd w"

definition os_chdir :: "sys \<Rightarrow> string \<Rightarrow> (unit, 'h) action" where
  "os_chdir S p w =
     (case fs_dir S (w_cwd w) p of
        None \<Rightarrow> (Inl (FileNotFoundError p), w)
      | Some q \<Rightarrow> (Inr (), w\<lparr>w_cwd := q\<rparr>))"

definition os_path_isdir :: "sys \<Rightarrow> 'h world \<Rightarrow> string \<Rightarrow> bool" where
  "os_path_isdir S w p \<longleftrightarrow> fs_dir S (w_cwd w) p \<noteq> None"

section \<open>Strings\<close>

text \<open>\<^verbatim>\<open>str.isspace\<close> on the code points below 256.\<close>

definition is_space :: "char \<Rightarrow> bool" where
  "is_space c \<longleftrightarrow>
     (of_char c :: nat) \<in> {9, 10, 11, 12, 13, 28, 29, 30, 31, 32, 133, 160}"

text \<open>\<^verbatim>\<open>str.strip()\<close> and \<^verbatim>\<open>str.split()\<close>, both without argument.\<close>

definition strip :: "string \<Rightarrow> string" where
  "strip s = rev (dropWhile is_space (rev (dropWhile is_space s)))"

fun split_from :: "string \<Rightarrow> string \<Rightarrow> string list" where
  "split_from cur [] = (if cur = [] then [] else [rev cur])"
| "split_from cur (c # cs) =
     (if is_space c
      then (if cur = [] then split_from [] cs else rev cur # split_from [] cs)
      else split_from (c # cur) cs)"

definition split :: "string \<Rightarrow> string list" where
  "split s = split_from [] s"

text \<open>\<^verbatim>\<open>sep.join(xs)\<close>.\<close>

fun join :: "string \<Rightarrow> string list \<Rightarrow> string" where
  "join sep [] = []"
| "join sep [x] = x"
| "join sep (x # y # ys) = x @ sep @ join sep (y # ys)"

text \<open>\<^verbatim>\<open>s.endswith(suffix)\<close>.\<close>

definition endswith :: "string \<Rightarrow> string \<Rightarrow> bool" where
  "endswith s suffix \<longleftrightarrow>
     length suffix \<le> length s \<and> drop (length s - length suffix) s = suffix"

text \<open>\<^verbatim>\<open>str.upper()\<close> on ASCII text.\<close>

definition upper_char :: "char \<Rightarrow> char" where
  "upper_char c =
     (if 97 \<le> (of_char c :: nat) \<and> (of_char c :: nat) \<le> 122
      then char_of ((of_char c :: nat) - 32) else c)"

definition upper :: "string \<Rightarrow> string" where
  "upper s = map upper_char s"

section \<open>util.py\<close>

text \<open>The program \<^verbatim>\<open>subprocess.run\<close> launches: the first argument, or the shell.\<close>

fun executable_of :: "cmdline \<Rightarrow> string" where
  "executable_of (Shell c) = ''/bin/sh''"
| "executable_of (Argv []) = []"
| "executable_of (Argv (a # as)) = a"

text \<open>
  \<^verbatim>\<open>subprocess.run(cmd, input=..., stdout=PIPE, stderr=STDOUT, check=..., text=True,
  shell=...)\<close>. An empty argument vector raises \<^verbatim>\<open>IndexError\<close> before anything is
  handed to the operating system. Otherwise the call is recorded and its
  outcome is the environment's: a command that cannot be started raises
  \<^verbatim>\<open>FileNotFoundError\<close>, whatever \<open>check\<close> is; with \<open>check\<close> a non-zero status
  raises \<^verbatim>\<open>CalledProcessError\<close> carrying the captured output.
\<close>

definition subprocess_run ::
  "sys \<Rightarrow> cmdline \<Rightarrow> string option \<Rightarrow> bool \<Rightarrow> (completed_process, 'h) action" where
  "subprocess_run S cmd inp check w =
     (if cmd = Argv [] then (Inl IndexError, w)
      else
        (let ev = \<lparr>ev_cmd = cmd, ev_input = inp, ev_cwd = w_cwd w\<rparr>;
             w1 = w\<lparr>w_trace := w_trace w @ [ev]\<rparr>
         in case os_run S (w_trace w1) of
              CannotStart \<Rightarrow> (Inl (FileNotFoundError (executable_of cmd)), w1)
            | Exited rc out \<Rightarrow>
                if check \<and> rc \<noteq> 0 then (Inl (CalledProcessError rc cmd out), w1)
                else (Inr \<lparr>args = cmd, returncode = rc, stdout = out\<rparr>, w1)))"

fun is_CalledProcessError :: "pyerr \<Rightarrow> bool" where
  "is_CalledProcessError (CalledProcessError rc cmd out) = True"
| "is_CalledProcessError e = False"

fun err_output :: "pyerr \<Rightarrow> string" where
  "err_output (CalledProcessError rc cmd out) = out"
| "err_output e = []"

text \<open>
  \<^verbatim>\<open>exec_cmd(cmd, check_return=True, shell_mode=False, input=None)\<close>. The
  \<^verbatim>\<open>except\<close> clause catches \<^verbatim>\<open>CalledProcessError\<close> only, logs it and raises it
  again; any other error of \<^verbatim>\<open>subprocess.run\<close> passes through unlogged; \<^verbatim>\<open>e.stderr\<close> is \<^verbatim>\<open>None\<close> since standard error goes to standard output.
\<close>

definition exec_cmd ::
  "sys \<Rightarrow> string \<Rightarrow> bool \<Rightarrow> bool \<Rightarrow> string option \<Rightarrow> (completed_process, 'h) action" where
  "exec_cmd S cmd check_return shell_mode inp w =
     (let cmd1 = strip cmd;
          cmd2 = (if \<not> shell_mode then Argv (split cmd1) else Shell cmd1);
          w1 = logger_info [Txt ''Executing command: '', FCmd cmd2] w
      in case subprocess_run S cmd2 inp check_return w1 of
           (Inr proc, w2) \<Rightarrow>
             (Inr proc, logger_info [Txt ''Command Result: '', Txt (stdout proc)] w2)
         | (Inl e, w2) \<Rightarrow>
             (if is_CalledProcessError e
              then (Inl e,
                    logger_error
                      [Txt ''CalledProcessError encountered while running command ['',
                       FCmd cmd2, Txt '']'',
                       Txt (case inp of None \<Rightarrow> [] | Some i \<Rightarrow> '' with input: '' @ i),
                       Txt [CHR 0x2E, CHR 0x0A], Txt ''Exception: '', FErr e,
                       Txt [CHR 0x0A], Txt ''STDOUT: '', Txt (err_output e),
                       Txt [CHR 0x0A], Txt ''STDERR: '', Txt ''None''] w2)
              else (Inl e, w2)))"


section \<open>component.py\<close>

text \<open>
  A component instance: its \<^verbatim>\<open>path\<close> and the four lifecycle methods of its
  class. The methods of concrete classes are not part of this repository; they
  are arbitrary actions on the process state.
\<close>

record 'h component =
  c_path :: string
  c_build :: "string \<Rightarrow> bool \<Rightarrow> (unit, 'h) action"
  c_deploy :: "string \<Rightarrow> json \<Rightarrow> (unit, 'h) action"
  c_package :: "string \<Rightarrow> (unit, 'h) action"
  c_undeploy :: "string \<Rightarrow> json \<Rightarrow> (unit, 'h) action"

text \<open>The base class \<^verbatim>\<open>Component\<close>: every lifecycle method is \<^verbatim>\<open>pass\<close>.\<close>

definition Component :: "string \<Rightarrow> 'h component" where
  "Component p =
     \<lparr>c_path = p,
      c_build = (\<lambda>deployment_name nocache w. (Inr (), w)),
      c_deploy = (\<lambda>deployment_name tf_outputs w. (Inr (), w)),
      c_package = (\<lambda>deployment_name w. (Inr (), w)),
      c_undeploy = (\<lambda>deployment_name tf_outputs w. (Inr (), w))\<rparr>"

text \<open>\<^verbatim>\<open>tf_outputs.keys()\<close>: only a \<^verbatim>\<open>dict\<close> has the method.\<close>

fun dict_keys :: "json \<Rightarrow> pyerr + string list" where
  "dict_keys (JObj kvs) = Inr (map fst kvs)"
| "dict_keys JNull = Inl (AttributeError ''NoneType'' ''keys'')"
| "dict_keys (JBool b) = Inl (AttributeError ''bool'' ''keys'')"
| "dict_keys (JNum n) = Inl (AttributeError ''int'' ''keys'')"
| "dict_keys (JStr s) = Inl (AttributeError ''str'' ''keys'')"
| "dict_keys (JArr xs) = Inl (AttributeError ''list'' ''keys'')"

text \<open>The \<^verbatim>\<open>for required_key in required_keys\<close> loop of \<^verbatim>\<open>_check_tfoutputs\<close>; the
  error text interpolates the whole mapping and the whole required-keys list.\<close>

fun check_required_loop ::
  "json \<Rightarrow> string list \<Rightarrow> string list \<Rightarrow> string list \<Rightarrow> pyerr + unit" where
  "check_required_loop tf_outputs required_keys tf_output_keys_upper [] = Inr ()"
| "check_required_loop tf_outputs required_keys tf_output_keys_upper (required_key # rest) =
     (if upper required_key \<notin> set tf_output_keys_upper
      then Inl (KeyError [Txt ''Specified tf_outputs ['', FJson tf_outputs,
                          Txt ''] is missing one or more required_keys ['',
                          FStrs required_keys, Txt '']''])
      else check_required_loop tf_outputs required_keys tf_output_keys_upper rest)"

text \<open>\<^verbatim>\<open>Component._check_tfoutputs(tf_outputs, required_keys)\<close>; \<open>None\<close> is Python's
  \<^verbatim>\<open>None\<close> for the list.\<close>

definition Component_check_tfoutputs :: "json \<Rightarrow> string list option \<Rightarrow> pyerr + unit" where
  "Component_check_tfoutputs tf_outputs required_keys =
     (case required_keys of
        None \<Rightarrow> Inr ()
      | Some rk \<Rightarrow>
          if rk = [] \<or> length rk = 0 then Inr ()
          else (case dict_keys tf_outputs of
                  Inl e \<Rightarrow> Inl e
                | Inr ks \<Rightarrow> check_required_loop tf_outputs rk (map upper ks) rk))"

section \<open>deployment.py\<close>

record 'h deployment =
  d_name :: string
  d_path :: string
  d_components :: "'h component list"
  d_apply_wait :: int
  d_tf_outputs :: json

definition APPLY_WAIT_DEFAULT :: int where
  "APPLY_WAIT_DEFAULT = 60"

text \<open>\<^verbatim>\<open>Deployment.__init__\<close>: the attribute \<^verbatim>\<open>_tf_outputs\<close> starts as \<^verbatim>\<open>None\<close>.\<close>

definition Deployment :: "string \<Rightarrow> string \<Rightarrow> 'h component list \<Rightarrow> int \<Rightarrow> 'h deployment" where
  "Deployment name path components apply_wait =
     \<lparr>d_name = name, d_path = path, d_components = components,
      d_apply_wait = apply_wait, d_tf_outputs = JNull\<rparr>"

fun class_name :: "pyerr \<Rightarrow> string" where
  "class_name (CalledProcessError rc cmd out) = ''CalledProcessError''"
| "class_name (JSONDecodeError doc) = ''JSONDecodeError''"
| "class_name (FileNotFoundError p) = ''FileNotFoundError''"
| "class_name (AttributeError cls attr) = ''AttributeError''"
| "class_name (KeyError m) = ''KeyError''"
| "class_name NotImplementedError = ''NotImplementedError''"
| "class_name IndexError = ''IndexError''"
| "class_name (SystemExit n) = ''SystemExit''"
| "class_name (ComponentError descr m) = descr"

text \<open>The attribute access \<^verbatim>\<open>e.message\<close>: no exception class of Python 3 or of its
  standard library has the attribute; a class of a component implementation
  may.\<close>

fun getattr_message :: "pyerr \<Rightarrow> pyerr + string" where
  "getattr_message (ComponentError descr (Some m)) = Inr m"
| "getattr_message e = Inl (AttributeError (class_name e) ''message'')"

text \<open>\<^verbatim>\<open>except Exception\<close> does not catch \<^verbatim>\<open>SystemExit\<close>.\<close>

fun is_Exception :: "pyerr \<Rightarrow> bool" where
  "is_Exception (SystemExit n) = False"
| "is_Exception e = True"

definition nl :: string where
  "nl = [CHR 0x0A]"

definition tab :: string where
  "tab = [CHR 0x09]"

text \<open>
  The handler shared, up to its wording, by \<^verbatim>\<open>tf_outputs\<close>, \<^verbatim>\<open>apply\<close> and
  \<^verbatim>\<open>destroy\<close>:
  \<^verbatim>\<open>except Exception as e: logger.error(f"Error ... {what} [{self.name}] at path
  [{self.path}]: \n\t{e.message}"); raise e\<close>.
  The f-string is evaluated before \<^verbatim>\<open>logger.error\<close> is called, so a failing
  \<^verbatim>\<open>e.message\<close> raises from inside the handler with nothing logged.
\<close>

definition except_log_reraise ::
  "string \<Rightarrow> 'h deployment \<Rightarrow> pyerr \<Rightarrow> 'h world \<Rightarrow> (pyerr + 'a) \<times> 'h world" where
  "except_log_reraise what d e w =
     (if \<not> is_Exception e then (Inl e, w)
      else (case getattr_message e of
              Inl ae \<Rightarrow> (Inl ae, w)
            | Inr m \<Rightarrow>
                (Inl e,
                 logger_error
                   [Txt (''Error encountered attempting to '' @ what @ '' ['' @ d_name d
                         @ ''] at path ['' @ d_path d @ '']: '' @ nl @ tab @ m)] w)))"

text \<open>\<^verbatim>\<open>finally: os.chdir(prev_cwd)\<close>: runs after the body or the handler, whatever
  their outcome; an error of its own replaces that outcome.\<close>

definition finally_chdir ::
  "sys \<Rightarrow> string \<Rightarrow> (pyerr + 'a) \<times> 'h world \<Rightarrow> (pyerr + 'a) \<times> 'h world" where
  "finally_chdir S prev_cwd rw =
     (case rw of
        (r, w) \<Rightarrow>
          (case os_chdir S prev_cwd w of
             (Inl e, w1) \<Rightarrow> (Inl e, w1)
           | (Inr u, w1) \<Rightarrow> (r, w1)))"

text \<open>The \<^verbatim>\<open>try\<close> body of the \<^verbatim>\<open>tf_outputs\<close> property. The third argument of
  \<^verbatim>\<open>exec_cmd\<close> is the logger object, which is true as \<^verbatim>\<open>shell_mode\<close>.\<close>

definition tf_outputs_try :: "sys \<Rightarrow> 'h deployment \<Rightarrow> (json, 'h) action" where
  "tf_outputs_try S d w =
     (case os_chdir S (d_path d) w of
        (Inl e, w1) \<Rightarrow> (Inl e, w1)
      | (Inr u, w1) \<Rightarrow>
          (case exec_cmd S ''terraform output -json'' True True None w1 of
             (Inl e, w2) \<Rightarrow> (Inl e, w2)
           | (Inr proc, w2) \<Rightarrow>
               (case json_loads S (strip (stdout proc)) of
                  None \<Rightarrow> (Inl (JSONDecodeError (strip (stdout proc))), w2)
                | Some j \<Rightarrow> (Inr j, w2))))"

text \<open>The property \<^verbatim>\<open>Deployment.tf_outputs\<close>. It returns the deployment too, whose
  attribute \<^verbatim>\<open>_tf_outputs\<close> the body assigns when it succeeds.\<close>

definition Deployment_tf_outputs ::
  "sys \<Rightarrow> 'h deployment \<Rightarrow> 'h world \<Rightarrow> (pyerr + json) \<times> 'h deployment \<times> 'h world" where
  "Deployment_tf_outputs S d w =
     (let prev_cwd = os_getcwd w in
      case tf_outputs_try S d w of
        (Inr j, w1) \<Rightarrow>
          (case finally_chdir S prev_cwd (Inr j, w1) of
             (r, w2) \<Rightarrow> (r, d\<lparr>d_tf_outputs := j\<rparr>, w2))
      | (Inl e, w1) \<Rightarrow>
          (case finally_chdir S prev_cwd
                  (except_log_reraise ''read terraform outputs from deployment'' d e w1) of
             (r, w2) \<Rightarrow> (r, d, w2)))"

definition terraform_try :: "sys \<Rightarrow> string \<Rightarrow> 'h deployment \<Rightarrow> (unit, 'h) action" where
  "terraform_try S cmd d w =
     (case os_chdir S (d_path d) w of
        (Inl e, w1) \<Rightarrow> (Inl e, w1)
      | (Inr u, w1) \<Rightarrow>
          (case exec_cmd S cmd True True None w1 of
             (Inl e, w2) \<Rightarrow> (Inl e, w2)
           | (Inr proc, w2) \<Rightarrow> (Inr (), logger_info [Txt (strip (stdout proc))] w2)))"

text \<open>\<^verbatim>\<open>Deployment.apply\<close>.\<close>

definition Deployment_apply :: "sys \<Rightarrow> 'h deployment \<Rightarrow> (unit, 'h) action" where
  "Deployment_apply S d w =
     (let prev_cwd = os_getcwd w in
      finally_chdir S prev_cwd
        (case terraform_try S ''terraform apply'' d w of
           (Inl e, w1) \<Rightarrow>
             except_log_reraise ''apply terraform config for deployment'' d e w1
         | (Inr u, w1) \<Rightarrow> (Inr u, w1)))"

text \<open>\<^verbatim>\<open>Deployment.destroy\<close>.\<close>

definition Deployment_destroy :: "sys \<Rightarrow> 'h deployment \<Rightarrow> (unit, 'h) action" where
  "Deployment_destroy S d w =
     (let prev_cwd = os_getcwd w in
      finally_chdir S prev_cwd
        (case terraform_try S ''terraform destroy'' d w of
           (Inl e, w1) \<Rightarrow>
             except_log_reraise ''destroy terraform config for deployment'' d e w1
         | (Inr u, w1) \<Rightarrow> (Inr u, w1)))"

text \<open>\<^verbatim>\<open>Deployment.bootstrap\<close> and \<^verbatim>\<open>Deployment.unbootstrap\<close>.\<close>

definition Deployment_bootstrap :: "'h deployment \<Rightarrow> (unit, 'h) action" where
  "Deployment_bootstrap d w = (Inl NotImplementedError, w)"

definition Deployment_unbootstrap :: "'h deployment \<Rightarrow> (unit, 'h) action" where
  "Deployment_unbootstrap d w = (Inl NotImplementedError, w)"

text \<open>\<^verbatim>\<open>Deployment.build\<close>: \<^verbatim>\<open>for component in self.components:
  component.build(self.name, nocache)\<close>.\<close>

fun build_loop :: "string \<Rightarrow> bool \<Rightarrow> 'h component list \<Rightarrow> (unit, 'h) action" where
  "build_loop name nocache [] w = (Inr (), w)"
| "build_loop name nocache (component # rest) w =
     (case c_build component name nocache w of
        (Inl e, w1) \<Rightarrow> (Inl e, w1)
      | (Inr u, w1) \<Rightarrow> build_loop name nocache rest w1)"

definition Deployment_build :: "'h deployment \<Rightarrow> bool \<Rightarrow> (unit, 'h) action" where
  "Deployment_build d nocache w = build_loop (d_name d) nocache (d_components d) w"

text \<open>\<^verbatim>\<open>Deployment.package\<close>.\<close>

fun package_loop :: "string \<Rightarrow> 'h component list \<Rightarrow> (unit, 'h) action" where
  "package_loop name [] w = (Inr (), w)"
| "package_loop name (component # rest) w =
     (case c_package component name w of
        (Inl e, w1) \<Rightarrow> (Inl e, w1)
      | (Inr u, w1) \<Rightarrow> package_loop name rest w1)"

definition Deployment_package :: "'h deployment \<Rightarrow> (unit, 'h) action" where
  "Deployment_package d w = package_loop (d_name d) (d_components d) w"

text \<open>\<^verbatim>\<open>Deployment.deploy\<close>: \<^verbatim>\<open>for component in self.components:
  component.deploy(self.name, self.tf_outputs)\<close>. The argument \<^verbatim>\<open>self.tf_outputs\<close>
  is the property, evaluated in every iteration.\<close>

fun deploy_loop ::
  "sys \<Rightarrow> 'h deployment \<Rightarrow> 'h component list \<Rightarrow> 'h world
     \<Rightarrow> (pyerr + unit) \<times> 'h deployment \<times> 'h world" where
  "deploy_loop S d [] w = (Inr (), d, w)"
| "deploy_loop S d (component # rest) w =
     (case Deployment_tf_outputs S d w of
        (Inl e, d1, w1) \<Rightarrow> (Inl e, d1, w1)
      | (Inr outs, d1, w1) \<Rightarrow>
          (case c_deploy component (d_name d1) outs w1 of
             (Inl e, w2) \<Rightarrow> (Inl e, d1, w2)
           | (Inr u, w2) \<Rightarrow> deploy_loop S d1 rest w2))"

definition Deployment_deploy ::
  "sys \<Rightarrow> 'h deployment \<Rightarrow> 'h world \<Rightarrow> (pyerr + unit) \<times> 'h deployment \<times> 'h world" where
  "Deployment_deploy S d w =
     deploy_loop S d (d_components d)
       (logger_info [Txt ''Deploying system components''] w)"

text \<open>\<^verbatim>\<open>Deployment.undeploy\<close>.\<close>

fun undeploy_loop ::
  "sys \<Rightarrow> 'h deployment \<Rightarrow> 'h component list \<Rightarrow> 'h world
     \<Rightarrow> (pyerr + unit) \<times> 'h deployment \<times> 'h world" where
  "undeploy_loop S d [] w = (Inr (), d, w)"
| "undeploy_loop S d (component # rest) w =
     (case Deployment_tf_outputs S d w of
        (Inl e, d1, w1) \<Rightarrow> (Inl e, d1, w1)
      | (Inr outs, d1, w1) \<Rightarrow>
          (case c_undeploy component (d_name d1) outs w1 of
             (Inl e, w2) \<Rightarrow> (Inl e, d1, w2)
           | (Inr u, w2) \<Rightarrow> undeploy_loop S d1 rest w2))"

definition Deployment_undeploy ::
  "sys \<Rightarrow> 'h deployment \<Rightarrow> 'h world \<Rightarrow> (pyerr + unit) \<times> 'h deployment \<times> 'h world" where
  "Deployment_undeploy S d w =
     undeploy_loop S d (d_components d)
       (logger_info [Txt ''Un-deploying system components''] w)"

section \<open>cli.py\<close>

definition ENV_BPAD_TARGET :: string where
  "ENV_BPAD_TARGET = ''BPAD_TARGET''"

definition DEPLOYMENTS_YML :: string where
  "DEPLOYMENTS_YML = ''deployments.yml''"

text \<open>The module-level \<^verbatim>\<open>BASE_DIR\<close>, from \<^verbatim>\<open>os.environ\<close> at import time.\<close>

definition BASE_DIR :: "(string \<rightharpoonup> string) \<Rightarrow> string" where
  "BASE_DIR environ =
     (case environ ENV_BPAD_TARGET of None \<Rightarrow> [] | Some v \<Rightarrow> v)"

text \<open>A \<^verbatim>\<open>!Component\<close> record of the manifest and a \<^verbatim>\<open>!Deployment\<close> record as
  \<^verbatim>\<open>yaml.load\<close> returns it, its components still definitions.\<close>

record component_definition =
  cd_class_name :: string
  cd_path :: string

record manifest_deployment =
  m_name :: string
  m_path :: string
  m_components :: "component_definition list"
  m_apply_wait :: int

text \<open>The assignment to \<^verbatim>\<open>dep.path\<close> in \<^verbatim>\<open>CLI._load_deployments\<close>; \<open>os_sep\<close> is
  \<^verbatim>\<open>os.sep\<close>.\<close>

definition load_path :: "string \<Rightarrow> string \<Rightarrow> string \<Rightarrow> string" where
  "load_path os_sep base_dir p =
     (if length base_dir > 0 \<and> \<not> endswith base_dir os_sep
      then join os_sep [base_dir, p] else p)"

text \<open>\<^verbatim>\<open>for comp in dep.components: comps.append(comp.get_instance())\<close>;
  \<open>get_instance\<close> stands for the dynamic class lookup and instantiation.\<close>

fun instantiate_loop ::
  "(component_definition \<Rightarrow> pyerr + 'h component) \<Rightarrow> component_definition list
     \<Rightarrow> pyerr + 'h component list" where
  "instantiate_loop get_instance [] = Inr []"
| "instantiate_loop get_instance (cdef # rest) =
     (case get_instance cdef of
        Inl e \<Rightarrow> Inl e
      | Inr c \<Rightarrow>
          (case instantiate_loop get_instance rest of
             Inl e \<Rightarrow> Inl e
           | Inr cs \<Rightarrow> Inr (c # cs)))"

text \<open>\<^verbatim>\<open>CLI._load_deployments\<close>, from the parsed manifest on.\<close>

fun CLI_load_deployments ::
  "string \<Rightarrow> (string \<rightharpoonup> string) \<Rightarrow> (component_definition \<Rightarrow> pyerr + 'h component)
     \<Rightarrow> manifest_deployment list \<Rightarrow> pyerr + 'h deployment list" where
  "CLI_load_deployments os_sep environ get_instance [] = Inr []"
| "CLI_load_deployments os_sep environ get_instance (dep # rest) =
     (case instantiate_loop get_instance (m_components dep) of
        Inl e \<Rightarrow> Inl e
      | Inr comps \<Rightarrow>
          (case CLI_load_deployments os_sep environ get_instance rest of
             Inl e \<Rightarrow> Inl e
           | Inr deps \<Rightarrow>
               Inr (\<lparr>d_name = m_name dep,
                     d_path = load_path os_sep (BASE_DIR environ) (m_path dep),
                     d_components = comps,
                     d_apply_wait = m_apply_wait dep,
                     d_tf_outputs = JNull\<rparr> # deps)))"

text \<open>The \<^verbatim>\<open>CLI\<close> object: the dictionary \<^verbatim>\<open>self.deployments\<close>, in insertion order.\<close>

record 'h cli =
  deployments :: "(string \<times> 'h deployment) list"

text \<open>\<^verbatim>\<open>CLI.__init__\<close>: \<^verbatim>\<open>for dep in deployments: self.deployments[dep.name] = dep\<close>.\<close>

definition CLI_init :: "'h deployment list \<Rightarrow> 'h cli" where
  "CLI_init deps =
     \<lparr>deployments = foldl (\<lambda>m dep. AList.update (d_name dep) dep m) [] deps\<rparr>"

text \<open>\<^verbatim>\<open>self.deployments[deployment_name]\<close>.\<close>

definition dict_getitem :: "(string \<times> 'v) list \<Rightarrow> string \<Rightarrow> pyerr + 'v" where
  "dict_getitem m k =
     (case map_of m k of None \<Rightarrow> Inl (KeyError [Txt k]) | Some v \<Rightarrow> Inr v)"

fun is_FileNotFoundError :: "pyerr \<Rightarrow> bool" where
  "is_FileNotFoundError (FileNotFoundError p) = True"
| "is_FileNotFoundError e = False"

fun is_KeyError :: "pyerr \<Rightarrow> bool" where
  "is_KeyError (KeyError m) = True"
| "is_KeyError e = False"

text \<open>The loop over the components in \<^verbatim>\<open>CLI._check_paths\<close>.\<close>

fun check_component_paths :: "sys \<Rightarrow> 'h world \<Rightarrow> 'h component list \<Rightarrow> pyerr + unit" where
  "check_component_paths S w [] = Inr ()"
| "check_component_paths S w (component # rest) =
     (if \<not> os_path_isdir S w (c_path component) then Inl (FileNotFoundError [])
      else check_component_paths S w rest)"

text \<open>\<^verbatim>\<open>CLI._check_paths(deployment)\<close>.\<close>

definition CLI_check_paths :: "sys \<Rightarrow> 'h deployment \<Rightarrow> (bool, 'h) action" where
  "CLI_check_paths S deployment w =
     (case (if \<not> os_path_isdir S w (d_path deployment) then Inl (FileNotFoundError [])
            else check_component_paths S w (d_components deployment)) of
        Inl e \<Rightarrow>
          (if is_FileNotFoundError e
           then (Inl (SystemExit 1),
                 logger_error
                   [Txt (''The specified path for deployment ['' @ d_name deployment
                      @ ''], or one of its components, was not found. Please ensure that the paths specified in [''
                      @ DEPLOYMENTS_YML
                      @ ''] are either 1) absolute paths, 2) relative to your current working directory, or 3) relative to the path stored in the ''
                      @ ENV_BPAD_TARGET @ '' environment variable.'')] w)
           else (Inl e, w))
      | Inr u \<Rightarrow> (Inr True, w))"

text \<open>
  The block every verb starts with:
  \<^verbatim>\<open>try: self._check_paths(self.deployments[deployment_name])
  except KeyError as e: logger.error(...); raise SystemExit(1)\<close>.
\<close>

definition CLI_guard :: "sys \<Rightarrow> 'h cli \<Rightarrow> string \<Rightarrow> (bool, 'h) action" where
  "CLI_guard S self deployment_name w =
     (case (case dict_getitem (deployments self) deployment_name of
              Inl e \<Rightarrow> (Inl e, w)
            | Inr d \<Rightarrow> CLI_check_paths S d w) of
        (Inl e, w1) \<Rightarrow>
          (if is_KeyError e
           then (Inl (SystemExit 1),
                 logger_error
                   [Txt (''Invalid deployment specified: '' @ deployment_name @ nl
                         @ ''    Supported values: ''
                         @ join '', '' (map fst (deployments self))
                         @ nl @ tab @ ''Exception: ''), FErr e] w1)
           else (Inl e, w1))
      | (Inr b, w1) \<Rightarrow> (Inr b, w1))"

text \<open>What follows the block: \<^verbatim>\<open>self.deployments[deployment_name].method()\<close>.\<close>

definition CLI_call ::
  "sys \<Rightarrow> 'h cli \<Rightarrow> string \<Rightarrow> ('h deployment \<Rightarrow> (unit, 'h) action) \<Rightarrow> (unit, 'h) action" where
  "CLI_call S self deployment_name method w =
     (case CLI_guard S self deployment_name w of
        (Inl e, w1) \<Rightarrow> (Inl e, w1)
      | (Inr b, w1) \<Rightarrow>
          (case dict_getitem (deployments self) deployment_name of
             Inl e \<Rightarrow> (Inl e, w1)
           | Inr d \<Rightarrow> method d w1))"

definition CLI_apply :: "sys \<Rightarrow> 'h cli \<Rightarrow> string \<Rightarrow> (unit, 'h) action" where
  "CLI_apply S self deployment_name =
     CLI_call S self deployment_name (Deployment_apply S)"

definition CLI_bootstrap :: "sys \<Rightarrow> 'h cli \<Rightarrow> string \<Rightarrow> (unit, 'h) action" where
  "CLI_bootstrap S self deployment_name =
     CLI_call S self deployment_name Deployment_bootstrap"

definition CLI_build :: "sys \<Rightarrow> 'h cli \<Rightarrow> string \<Rightarrow> bool \<Rightarrow> (unit, 'h) action" where
  "CLI_build S self deployment_name nocache =
     CLI_call S self deployment_name (\<lambda>d. Deployment_build d nocache)"

definition CLI_deploy :: "sys \<Rightarrow> 'h cli \<Rightarrow> string \<Rightarrow> (unit, 'h) action" where
  "CLI_deploy S self deployment_name =
     CLI_call S self deployment_name
       (\<lambda>d w. case Deployment_deploy S d w of (r, d1, w1) \<Rightarrow> (r, w1))"

definition CLI_destroy :: "sys \<Rightarrow> 'h cli \<Rightarrow> string \<Rightarrow> (unit, 'h) action" where
  "CLI_destroy S self deployment_name =
     CLI_call S self deployment_name (Deployment_destroy S)"

definition CLI_package :: "sys \<Rightarrow> 'h cli \<Rightarrow> string \<Rightarrow> (unit, 'h) action" where
  "CLI_package S self deployment_name =
     CLI_call S self deployment_name Deployment_package"

definition CLI_unbootstrap :: "sys \<Rightarrow> 'h cli \<Rightarrow> string \<Rightarrow> (unit, 'h) action" where
  "CLI_unbootstrap S self deployment_name =
     CLI_call S self deployment_name Deployment_unbootstrap"

definition CLI_undeploy :: "sys \<Rightarrow> 'h cli \<Rightarrow> string \<Rightarrow> (unit, 'h) action" where
  "CLI_undeploy S self deployment_name =
     CLI_call S self deployment_name
       (\<lambda>d w. case Deployment_undeploy S d w of (r, d1, w1) \<Rightarrow> (r, w1))"

text \<open>The lifecycle verbs of the command line, and the dispatch \<^verbatim>\<open>fire.Fire(CLI())\<close>
  makes on the verb.\<close>

datatype verb =
    VApply | VBootstrap | VBuild bool | VDeploy | VDestroy | VPackage
  | VUnbootstrap | VUndeploy

fun CLI_run :: "sys \<Rightarrow> 'h cli \<Rightarrow> verb \<Rightarrow> string \<Rightarrow> (unit, 'h) action" where
  "CLI_run S self VApply deployment_name = CLI_apply S self deployment_name"
| "CLI_run S self VBootstrap deployment_name = CLI_bootstrap S self deployment_name"
| "CLI_run S self (VBuild nocache) deployment_name = CLI_build S self deployment_name nocache"
| "CLI_run S self VDeploy deployment_name = CLI_deploy S self deployment_name"
| "CLI_run S self VDestroy deployment_name = CLI_destroy S self deployment_name"
| "CLI_run S self VPackage deployment_name = CLI_package S self deployment_name"
| "CLI_run S self VUnbootstrap deployment_name = CLI_unbootstrap S self deployment_name"
| "CLI_run S self VUndeploy deployment_name = CLI_undeploy S self deployment_name"

section \<open>Observations and example inputs\<close>

text \<open>The call \<^verbatim>\<open>exec_cmd(cmd, _, shell_mode, input)\<close> hands to \<^verbatim>\<open>subprocess.run\<close> in
  state \<open>w\<close>.\<close>

definition cmd_event :: "string \<Rightarrow> bool \<Rightarrow> string option \<Rightarrow> 'h world \<Rightarrow> exec_event" where
  "cmd_event cmd shell_mode inp w =
     \<lparr>ev_cmd = (if \<not> shell_mode then Argv (split (strip cmd)) else Shell (strip cmd)),
      ev_input = inp, ev_cwd = w_cwd w\<rparr>"

text \<open>The output queries among the commands run.\<close>

text \<open>The state in which a component's build leaves the process.\<close>

definition build_step :: "string \<Rightarrow> bool \<Rightarrow> 'h world \<Rightarrow> 'h component \<Rightarrow> 'h world" where
  "build_step name nocache w c = snd (c_build c name nocache w)"

definition is_output_query :: "exec_event \<Rightarrow> bool" where
  "is_output_query ev \<longleftrightarrow> ev_cmd ev = Shell ''terraform output -json''"

definition query_count :: "exec_event list \<Rightarrow> nat" where
  "query_count evs = length (filter is_output_query evs)"

text \<open>A component whose own deploy and undeploy operations run no output query.\<close>

definition quiet :: "'h component \<Rightarrow> bool" where
  "quiet c \<longleftrightarrow>
     (\<forall>n outs w. query_count (w_trace (snd (c_deploy c n outs w))) = query_count (w_trace w))
   \<and> (\<forall>n outs w. query_count (w_trace (snd (c_undeploy c n outs w))) = query_count (w_trace w))"

text \<open>The directory of the deployment and of each of its components exists.\<close>

definition paths_exist :: "sys \<Rightarrow> 'h world \<Rightarrow> 'h deployment \<Rightarrow> bool" where
  "paths_exist S w d \<longleftrightarrow>
     os_path_isdir S w (d_path d)
     \<and> list_all (\<lambda>c. os_path_isdir S w (c_path c)) (d_components d)"

text \<open>A file system with the directories \<^verbatim>\<open>/home/user\<close> and \<^verbatim>\<open>/home/user/infra\<close>,
  and three environments on it: the provisioning tool succeeds and prints an
  empty object; it exits with status 1; it exits with status 0 and prints text
  that is not JSON.\<close>

definition example_fs :: "string \<Rightarrow> string \<Rightarrow> string option" where
  "example_fs c p =
     (if p = ''/home/user'' then Some ''/home/user''
      else if p = ''infra'' \<and> c = ''/home/user'' then Some ''/home/user/infra''
      else None)"

definition example_sys :: sys where
  "example_sys =
     \<lparr>fs_dir = example_fs, os_run = (\<lambda>evs. Exited 0 ''{}''),
      json_loads = (\<lambda>s. if s = ''{}'' then Some (JObj []) else None)\<rparr>"

definition failing_sys :: sys where
  "failing_sys =
     \<lparr>fs_dir = example_fs, os_run = (\<lambda>evs. Exited 1 ''boom''),
      json_loads = (\<lambda>s. if s = ''{}'' then Some (JObj []) else None)\<rparr>"

definition garbled_sys :: sys where
  "garbled_sys =
     \<lparr>fs_dir = example_fs, os_run = (\<lambda>evs. Exited 0 ''Warning''),
      json_loads = (\<lambda>s. if s = ''{}'' then Some (JObj []) else None)\<rparr>"


definition example_world :: "unit world" where
  "example_world = \<lparr>w_cwd = ''/home/user'', w_trace = [], w_log = [], w_heap = ()\<rparr>"

text \<open>A deployment of two components of the base class, and one whose directory
  does not exist.\<close>

definition example_deployment :: "unit deployment" where
  "example_deployment =
     Deployment ''prod'' ''infra'' [Component ''/home/user'', Component ''/home/user'']
       APPLY_WAIT_DEFAULT"

definition misplaced_deployment :: "unit deployment" where
  "misplaced_deployment =
     Deployment ''prod'' ''nowhere'' [Component ''/home/user''] APPLY_WAIT_DEFAULT"

text \<open>A component whose build runs a command that exits with status 1, and one
  whose build only logs.\<close>

definition failing_build :: "unit component" where
  "failing_build =
     (Component ''/home/user'')
       \<lparr>c_build := (\<lambda>deployment_name nocache w.
           case exec_cmd failing_sys ''docker build .'' True False None w of
             (Inl e, w1) \<Rightarrow> (Inl e, w1)
           | (Inr proc, w1) \<Rightarrow> (Inr (), w1))\<rparr>"

definition logging_build :: "unit component" where
  "logging_build =
     (Component ''/home/user'')
       \<lparr>c_build := (\<lambda>deployment_name nocache w.
           (Inr (), logger_info [Txt ''built''] w))\<rparr>"

text \<open>A manifest loaded with the base directory \<^verbatim>\<open>/srv/proj/\<close>.\<close>

definition example_environ :: "string \<rightharpoonup> string" where
  "example_environ = [ENV_BPAD_TARGET \<mapsto> ''/srv/proj/'']"

definition example_manifest :: "manifest_deployment list" where
  "example_manifest =
     [\<lparr>m_name = ''prod'', m_path = ''infra'',
       m_components = [\<lparr>cd_class_name = ''pkg.mod.Web'', cd_path = ''web''\<rparr>],
       m_apply_wait = 60\<rparr>]"

definition example_get_instance :: "component_definition \<Rightarrow> pyerr + unit component" where
  "example_get_instance cdef = Inr (Component (cd_path cdef))"

section \<open>Auxiliary facts\<close>

subsection \<open>exec_cmd\<close>

lemma exec_cmd_result:
  "fst (exec_cmd S cmd check_return shell_mode inp w) =
     (let ev = cmd_event cmd shell_mode inp w
      in if ev_cmd ev = Argv [] then Inl IndexError
         else (case os_run S (w_trace w @ [ev]) of
                 CannotStart \<Rightarrow> Inl (FileNotFoundError (executable_of (ev_cmd ev)))
               | Exited rc out \<Rightarrow>
                   if check_return \<and> rc \<noteq> 0
                   then Inl (CalledProcessError rc (ev_cmd ev) out)
                   else Inr \<lparr>args = ev_cmd ev, returncode = rc, stdout = out\<rparr>))"
  by (cases shell_mode)
     (auto simp: exec_cmd_def subprocess_run_def cmd_event_def logger_info_def
        logger_error_def Let_def split: run_outcome.splits)

lemma exec_cmd_ok_trace:
  "exec_cmd S cmd c sh inp w = (Inr proc, w1) \<Longrightarrow>
     w_trace w1 = w_trace w @ [cmd_event cmd sh inp w]"
  by (auto simp: exec_cmd_def subprocess_run_def cmd_event_def logger_info_def
        logger_error_def Let_def split: run_outcome.splits if_splits)

lemma strip_output_query: "strip ''terraform output -json'' = ''terraform output -json''"
  by code_simp

subsection \<open>The working directory\<close>

lemma os_chdir_ok_trace: "os_chdir S p w = (r, w1) \<Longrightarrow> w_trace w1 = w_trace w"
  by (auto simp: os_chdir_def split: option.splits)

lemma finally_chdir_cwd:
  "\<forall>c. fs_dir S c p = Some p \<Longrightarrow> w_cwd (snd (finally_chdir S p rw)) = p"
  by (cases rw)
     (simp add: finally_chdir_def os_chdir_def split: option.splits sum.splits prod.splits)

lemma finally_chdir_cwd_eq:
  "\<forall>c. fs_dir S c p = Some p \<Longrightarrow> finally_chdir S p rw = (r, w') \<Longrightarrow> w_cwd w' = p"
  using finally_chdir_cwd [of S p rw] by simp

lemma finally_chdir_ok:
  "finally_chdir S p (r, w) = (Inr x, w1) \<Longrightarrow> r = Inr x \<and> w_trace w1 = w_trace w"
  by (auto simp: finally_chdir_def os_chdir_def split: option.splits sum.splits prod.splits)

lemma except_log_reraise_fails: "fst (except_log_reraise what d e w) \<noteq> Inr x"
  by (simp add: except_log_reraise_def split: sum.splits)

subsection \<open>The output query\<close>

lemma query_count_snoc:
  "query_count (evs @ [ev]) =
     (if is_output_query ev then Suc (query_count evs) else query_count evs)"
  by (simp add: query_count_def)

lemma tf_outputs_try_trace:
  assumes "tf_outputs_try S d w = (Inr j, w1)"
  shows "query_count (w_trace w1) = Suc (query_count (w_trace w))"
proof -
  from assms obtain wa wb proc where
    a: "os_chdir S (d_path d) w = (Inr (), wa)" and
    b: "exec_cmd S ''terraform output -json'' True True None wa = (Inr proc, wb)" and
    c: "w1 = wb"
    by (auto simp: tf_outputs_try_def split: prod.splits sum.splits option.splits)
  have "w_trace wb = w_trace w @ [cmd_event ''terraform output -json'' True None wa]"
    using os_chdir_ok_trace [OF a] exec_cmd_ok_trace [OF b] by simp
  moreover have "is_output_query (cmd_event ''terraform output -json'' True None wa)"
    by (simp add: is_output_query_def cmd_event_def strip_output_query)
  ultimately show ?thesis using c by (simp add: query_count_snoc)
qed

lemma tf_outputs_ok:
  assumes "Deployment_tf_outputs S d w = (Inr j, d1, w1)"
  shows "query_count (w_trace w1) = Suc (query_count (w_trace w))
         \<and> d_components d1 = d_components d \<and> d_name d1 = d_name d"
proof -
  obtain r0 w0 where t: "tf_outputs_try S d w = (r0, w0)"
    by (cases "tf_outputs_try S d w")
  show ?thesis
  proof (cases r0)
    case (Inl e)
    obtain r2 w2 where
      h: "except_log_reraise ''read terraform outputs from deployment'' d e w0
            = (r2 :: pyerr + json, w2)"
      by (cases "except_log_reraise ''read terraform outputs from deployment'' d e w0
                   :: (pyerr + json) \<times> _")
    with assms t Inl have "finally_chdir S (w_cwd w) (r2, w2) = (Inr j, w1)"
      by (auto simp: Deployment_tf_outputs_def os_getcwd_def Let_def split: prod.splits)
    from finally_chdir_ok [OF this] have "r2 = Inr j" by simp
    with h except_log_reraise_fails
           [of "''read terraform outputs from deployment''" d e w0 j]
    have False by simp
    then show ?thesis by simp
  next
    case (Inr j0)
    with assms t have f: "finally_chdir S (w_cwd w) (Inr j0, w0) = (Inr j, w1)"
      and d1: "d1 = d\<lparr>d_tf_outputs := j0\<rparr>"
      by (auto simp: Deployment_tf_outputs_def os_getcwd_def Let_def split: prod.splits)
    from finally_chdir_ok [OF f] have "w_trace w1 = w_trace w0" by simp
    moreover from t Inr have "query_count (w_trace w0) = Suc (query_count (w_trace w))"
      using tf_outputs_try_trace [of S d w j0 w0] by simp
    ultimately show ?thesis using d1 by simp
  qed
qed

lemma deploy_loop_count:
  "\<forall>c\<in>set cs. quiet c \<Longrightarrow> deploy_loop S d cs w = (Inr (), d1, w1) \<Longrightarrow>
     query_count (w_trace w1) = query_count (w_trace w) + length cs
     \<and> d_components d1 = d_components d \<and> d_name d1 = d_name d"
proof (induction cs arbitrary: d w)
  case Nil
  then show ?case by simp
next
  case (Cons c cs)
  from Cons.prems(2) obtain outs da wa wb where
    a: "Deployment_tf_outputs S d w = (Inr outs, da, wa)" and
    b: "c_deploy c (d_name da) outs wa = (Inr (), wb)" and
    r: "deploy_loop S da cs wb = (Inr (), d1, w1)"
    by (auto split: prod.splits sum.splits)
  from Cons.prems(1) have q: "quiet c" and qs: "\<forall>c\<in>set cs. quiet c" by simp_all
  from q b have "query_count (w_trace wb) = query_count (w_trace wa)"
    unfolding quiet_def by (metis snd_conv)
  with tf_outputs_ok [OF a] Cons.IH [OF qs r] show ?case by simp
qed

lemma undeploy_loop_count:
  "\<forall>c\<in>set cs. quiet c \<Longrightarrow> undeploy_loop S d cs w = (Inr (), d1, w1) \<Longrightarrow>
     query_count (w_trace w1) = query_count (w_trace w) + length cs
     \<and> d_components d1 = d_components d \<and> d_name d1 = d_name d"
proof (induction cs arbitrary: d w)
  case Nil
  then show ?case by simp
next
  case (Cons c cs)
  from Cons.prems(2) obtain outs da wa wb where
    a: "Deployment_tf_outputs S d w = (Inr outs, da, wa)" and
    b: "c_undeploy c (d_name da) outs wa = (Inr (), wb)" and
    r: "undeploy_loop S da cs wb = (Inr (), d1, w1)"
    by (auto split: prod.splits sum.splits)
  from Cons.prems(1) have q: "quiet c" and qs: "\<forall>c\<in>set cs. quiet c" by simp_all
  from q b have "query_count (w_trace wb) = query_count (w_trace wa)"
    unfolding quiet_def by (metis snd_conv)
  with tf_outputs_ok [OF a] Cons.IH [OF qs r] show ?case by simp
qed

subsection \<open>The build loop\<close>

lemma build_loop_append_fail:
  "build_loop n f pre w = (Inr (), w1) \<Longrightarrow> c_build c n f w1 = (Inl e, w2) \<Longrightarrow>
     build_loop n f (pre @ c # post) w = (Inl e, w2)"
  by (induction pre arbitrary: w) (auto split: prod.splits sum.splits)

lemma build_loop_ok_fold:
  "build_loop n f cs w = (Inr (), w') \<Longrightarrow> w' = foldl (build_step n f) w cs"
  by (induction cs arbitrary: w) (auto simp: build_step_def split: prod.splits sum.splits)

lemma build_loop_all_ok:
  "(\<forall>i<length cs. fst (c_build (cs ! i) n f (foldl (build_step n f) w (take i cs))) = Inr ())
   \<Longrightarrow> build_loop n f cs w = (Inr (), foldl (build_step n f) w cs)"
proof (induction cs arbitrary: w)
  case Nil
  then show ?case by simp
next
  case (Cons c cs)
  from Cons.prems have h0: "fst (c_build c n f w) = Inr ()" by fastforce
  then have c: "c_build c n f w = (Inr (), build_step n f w c)"
    by (metis build_step_def prod.collapse)
  have "\<forall>i<length cs. fst (c_build (cs ! i) n f
            (foldl (build_step n f) (build_step n f w c) (take i cs))) = Inr ()"
  proof (intro allI impI)
    fix i assume "i < length cs"
    then have "Suc i < length (c # cs)" by simp
    from Cons.prems [rule_format, OF this] show
      "fst (c_build (cs ! i) n f
            (foldl (build_step n f) (build_step n f w c) (take i cs))) = Inr ()"
      by simp
  qed
  from Cons.IH [OF this] c show ?case by simp
qed

lemma build_loop_fails_at:
  assumes "i < length cs"
      and "\<forall>j<i. fst (c_build (cs ! j) n f (foldl (build_step n f) w (take j cs))) = Inr ()"
      and "c_build (cs ! i) n f (foldl (build_step n f) w (take i cs)) = (Inl e, w2)"
  shows "build_loop n f cs w = (Inl e, w2)"
proof -
  have "\<forall>j<length (take i cs).
          fst (c_build (take i cs ! j) n f (foldl (build_step n f) w (take j (take i cs))))
            = Inr ()"
    using assms(1,2) by (simp add: min_def)
  from build_loop_all_ok [OF this]
  have p: "build_loop n f (take i cs) w = (Inr (), foldl (build_step n f) w (take i cs))" .
  have "cs = take i cs @ cs ! i # drop (Suc i) cs"
    using assms(1) by (simp add: id_take_nth_drop)
  then have "build_loop n f cs w
        = build_loop n f (take i cs @ cs ! i # drop (Suc i) cs) w" by simp
  also have "\<dots> = (Inl e, w2)"
    using build_loop_append_fail [OF p assms(3)] .
  finally show ?thesis .
qed

subsection \<open>The required keys\<close>

lemma check_required_loop_ok:
  "check_required_loop t rk ku ks = Inr () \<longleftrightarrow> (\<forall>k\<in>set ks. upper k \<in> set ku)"
  by (induction ks) auto

lemma check_required_loop_err:
  "check_required_loop t rk ku ks \<noteq> Inr () \<Longrightarrow>
   check_required_loop t rk ku ks =
     Inl (KeyError [Txt ''Specified tf_outputs ['', FJson t,
                    Txt ''] is missing one or more required_keys ['',
                    FStrs rk, Txt '']''])"
  by (induction ks) (auto split: if_splits)

lemma upper_examples:
  "upper ''Foo'' = ''FOO''" "upper ''FOO'' = ''FOO''" "upper ''BAR'' = ''BAR''"
  by code_simp+

subsection \<open>The command line\<close>

lemma dict_getitem_None: "map_of m k = None \<Longrightarrow> dict_getitem m k = Inl (KeyError [Txt k])"
  by (simp add: dict_getitem_def)

lemma CLI_guard_unknown:
  "map_of (deployments self) deployment_name = None \<Longrightarrow>
   CLI_guard S self deployment_name w =
     (Inl (SystemExit 1),
      logger_error
        [Txt (''Invalid deployment specified: '' @ deployment_name @ nl
              @ ''    Supported values: '' @ join '', '' (map fst (deployments self))
              @ nl @ tab @ ''Exception: ''), FErr (KeyError [Txt deployment_name])] w)"
  by (simp add: CLI_guard_def dict_getitem_None)

lemma CLI_call_guard_fails:
  "CLI_guard S self n w = (Inl e, w1) \<Longrightarrow> CLI_call S self n m w = (Inl e, w1)"
  by (simp add: CLI_call_def)

lemma CLI_run_guard_fails:
  "CLI_guard S self n w = (Inl e, w1) \<Longrightarrow> CLI_run S self v n w = (Inl e, w1)"
  by (cases v)
     (simp_all add: CLI_apply_def CLI_bootstrap_def CLI_build_def CLI_deploy_def
        CLI_destroy_def CLI_package_def CLI_unbootstrap_def CLI_undeploy_def
        CLI_call_guard_fails)

lemma check_component_paths_fail:
  "\<not> list_all (\<lambda>c. os_path_isdir S w (c_path c)) cs \<Longrightarrow>
     check_component_paths S w cs = Inl (FileNotFoundError [])"
  by (induction cs) auto

lemma CLI_check_paths_missing:
  "\<not> paths_exist S w d \<Longrightarrow>
   CLI_check_paths S d w =
     (Inl (SystemExit 1),
      logger_error
        [Txt (''The specified path for deployment ['' @ d_name d
           @ ''], or one of its components, was not found. Please ensure that the paths specified in [''
           @ DEPLOYMENTS_YML
           @ ''] are either 1) absolute paths, 2) relative to your current working directory, or 3) relative to the path stored in the ''
           @ ENV_BPAD_TARGET @ '' environment variable.'')] w)"
  by (auto simp: CLI_check_paths_def paths_exist_def check_component_paths_fail)

section \<open>The claims\<close>

subsection \<open>C1: output queries per deploy and undeploy call\<close>

text \<open>
  C1 as stated: one call of \<^verbatim>\<open>Deployment.deploy()\<close> queries the provisioning outputs
  exactly once, however many components the deployment has. It fails: the loop
  evaluates the property \<^verbatim>\<open>self.tf_outputs\<close> in each iteration, so on a deployment
  of two components of the base class, where every command succeeds, a
  \<^verbatim>\<open>deploy()\<close> call that returns normally has run the output query twice.
\<close>

theorem deploy_single_query_counterexample:
  "fst (Deployment_deploy example_sys example_deployment example_world) = Inr ()
   \<and> length (d_components example_deployment) = 2
   \<and> query_count (w_trace example_world) = 0
   \<and> query_count
        (w_trace (snd (snd (Deployment_deploy example_sys example_deployment example_world))))
      = 2"
  by code_simp

text \<open>
  C1, amended: a \<^verbatim>\<open>deploy()\<close> call, and likewise an \<^verbatim>\<open>undeploy()\<close> call, that returns
  normally has run the output query once for each component of the deployment
  (\<open>n\<close> times for \<open>n\<close> components, the queries that the components' own operations
  run aside); nothing is cached, so a \<^verbatim>\<open>deploy()\<close> followed by an \<^verbatim>\<open>undeploy()\<close> of
  the same deployment runs the query \<open>2 * n\<close> times.
\<close>

theorem deploy_queries_once_per_component:
  assumes "\<forall>c\<in>set (d_components d). quiet c"
  shows "(Deployment_deploy S d w = (Inr (), d1, w1) \<longrightarrow>
            query_count (w_trace w1) = query_count (w_trace w) + length (d_components d))
       \<and> (Deployment_undeploy S d w = (Inr (), d1, w1) \<longrightarrow>
            query_count (w_trace w1) = query_count (w_trace w) + length (d_components d))
       \<and> (Deployment_deploy S d w = (Inr (), d1, w1) \<and>
          Deployment_undeploy S d1 w1 = (Inr (), d2, w2) \<longrightarrow>
            query_count (w_trace w2)
              = query_count (w_trace w) + 2 * length (d_components d))"
proof -
  have a: "query_count (w_trace w') = query_count (w_trace w0) + length (d_components d0)
           \<and> d_components d' = d_components d0"
    if "Deployment_deploy S d0 w0 = (Inr (), d', w')" "\<forall>c\<in>set (d_components d0). quiet c"
    for d0 d' :: "'a deployment" and w0 w'
    using that
      deploy_loop_count [of "d_components d0" S d0
        "logger_info [Txt ''Deploying system components''] w0" d' w']
    by (simp add: Deployment_deploy_def logger_info_def)
  have b: "query_count (w_trace w') = query_count (w_trace w0) + length (d_components d0)"
    if "Deployment_undeploy S d0 w0 = (Inr (), d', w')" "\<forall>c\<in>set (d_components d0). quiet c"
    for d0 d' :: "'a deployment" and w0 w'
    using that
      undeploy_loop_count [of "d_components d0" S d0
        "logger_info [Txt ''Un-deploying system components''] w0" d' w']
    by (simp add: Deployment_undeploy_def logger_info_def)
  show ?thesis
    using a [of d w d1 w1] b [of d w d1 w1] b [of d1 w1 d2 w2] assms by auto
qed

theorem deploy_queries_once_per_component_witness:
  "quiet (Component ''/home/user'' :: unit component)
   \<and> d_components example_deployment = [Component ''/home/user'', Component ''/home/user'']
   \<and> fst (Deployment_undeploy example_sys example_deployment example_world) = Inr ()
   \<and> query_count
        (w_trace (snd (snd (Deployment_undeploy example_sys example_deployment example_world))))
      = query_count (w_trace example_world) + length (d_components example_deployment)"
proof -
  let ?X = "Deployment_undeploy example_sys example_deployment example_world"
  have q1: "quiet (Component ''/home/user'' :: unit component)"
    by (simp add: quiet_def Component_def)
  have cs: "d_components example_deployment
              = [Component ''/home/user'', Component ''/home/user'']"
    by (simp add: example_deployment_def Deployment_def)
  from q1 cs have q: "\<forall>c\<in>set (d_components example_deployment). quiet c"
    by simp
  have ok: "fst ?X = Inr ()" by code_simp
  then have eq: "?X = (Inr (), fst (snd ?X), snd (snd ?X))"
    by (metis prod.collapse)
  from deploy_queries_once_per_component
         [OF q, of example_sys example_world "fst (snd ?X)" "snd (snd ?X)"] eq q1 cs ok
  show ?thesis by simp
qed

subsection \<open>C2: the path of a deployment at load time\<close>

text \<open>
  C2: with a non-empty base directory \<open>D\<close> and a declared path \<open>p\<close>, the path
  resolved at load time is \<open>D\<close>, the separator, \<open>p\<close>. The code at the input the
  claim fails on: with \<^verbatim>\<open>BPAD_TARGET=/srv/proj/\<close>, separator \<^verbatim>\<open>/\<close> and declared
  path \<^verbatim>\<open>infra\<close>, \<^verbatim>\<open>_load_deployments\<close> leaves the path \<^verbatim>\<open>infra\<close>: a base directory
  that ends with the separator is not applied at all.
\<close>

theorem load_path_trailing_separator:
  "BASE_DIR example_environ = ''/srv/proj/''
   \<and> map_sum id (map d_path)
        (CLI_load_deployments ''/'' example_environ example_get_instance example_manifest)
      = Inr [''infra'']
   \<and> ''infra'' \<noteq> ''/srv/proj/'' @ ''/'' @ ''infra''"
  by (simp add: example_environ_def example_manifest_def example_get_instance_def
        BASE_DIR_def ENV_BPAD_TARGET_def load_path_def endswith_def)

subsection \<open>C3: errors of the tf_outputs accessor\<close>

text \<open>
  C3: when the output query fails, the accessor logs the error and raises that
  same error. The code at two inputs the claim fails on. When the query exits
  with status 1, the body raises \<^verbatim>\<open>CalledProcessError\<close> and the accessor raises
  \<^verbatim>\<open>AttributeError\<close>; when the output is not JSON, the body raises
  \<^verbatim>\<open>JSONDecodeError\<close>, the accessor raises \<^verbatim>\<open>AttributeError\<close> and no error record
  is logged: the handler's message reads \<^verbatim>\<open>e.message\<close>, which neither exception
  has.
\<close>

theorem tf_outputs_error_replaced:
  "fst (tf_outputs_try failing_sys example_deployment example_world)
     = Inl (CalledProcessError 1 (Shell ''terraform output -json'') ''boom'')
   \<and> fst (Deployment_tf_outputs failing_sys example_deployment example_world)
     = Inl (AttributeError ''CalledProcessError'' ''message'')
   \<and> fst (tf_outputs_try garbled_sys example_deployment example_world)
     = Inl (JSONDecodeError ''Warning'')
   \<and> fst (Deployment_tf_outputs garbled_sys example_deployment example_world)
     = Inl (AttributeError ''JSONDecodeError'' ''message'')
   \<and> w_log (snd (snd (Deployment_tf_outputs garbled_sys example_deployment example_world)))
     = [LogInfo [Txt ''Executing command: '', FCmd (Shell ''terraform output -json'')],
        LogInfo [Txt ''Command Result: '', Txt ''Warning'']]"
  by code_simp

subsection \<open>C4: the working directory is restored\<close>

text \<open>
  C4: after \<^verbatim>\<open>apply\<close>, \<^verbatim>\<open>destroy\<close> and the \<^verbatim>\<open>tf_outputs\<close> accessor, whether they
  return or raise, the working directory is the one observed before the call.
  The directory that is current before the call is taken to exist, as the
  current directory of a process does: it can be entered again from anywhere.
\<close>

theorem working_directory_restored:
  assumes "\<forall>c. fs_dir S c (w_cwd w) = Some (w_cwd w)"
  shows "w_cwd (snd (Deployment_apply S d w)) = w_cwd w
       \<and> w_cwd (snd (Deployment_destroy S d w)) = w_cwd w
       \<and> w_cwd (snd (snd (Deployment_tf_outputs S d w))) = w_cwd w"
proof -
  have a: "w_cwd (snd (Deployment_apply S d w)) = w_cwd w"
    using assms by (simp add: Deployment_apply_def os_getcwd_def finally_chdir_cwd)
  have b: "w_cwd (snd (Deployment_destroy S d w)) = w_cwd w"
    using assms by (simp add: Deployment_destroy_def os_getcwd_def finally_chdir_cwd)
  have c: "w_cwd (snd (snd (Deployment_tf_outputs S d w))) = w_cwd w"
    using assms
    by (auto simp: Deployment_tf_outputs_def os_getcwd_def Let_def
             split: prod.splits sum.splits dest: finally_chdir_cwd_eq)
  from a b c show ?thesis by simp
qed

theorem working_directory_restored_witness:
  "(\<forall>c. fs_dir failing_sys c (w_cwd example_world) = Some (w_cwd example_world))
   \<and> (\<exists>e. fst (Deployment_apply failing_sys example_deployment example_world) = Inl e)
   \<and> w_cwd (snd (Deployment_apply failing_sys example_deployment example_world))
       = w_cwd example_world
   \<and> w_cwd (snd (Deployment_destroy failing_sys example_deployment example_world))
       = w_cwd example_world
   \<and> w_cwd (snd (snd (Deployment_tf_outputs failing_sys example_deployment example_world)))
       = w_cwd example_world"
proof -
  have h: "\<forall>c. fs_dir failing_sys c (w_cwd example_world) = Some (w_cwd example_world)"
    by (simp add: failing_sys_def example_world_def example_fs_def)
  have f: "fst (Deployment_apply failing_sys example_deployment example_world)
             = Inl (AttributeError ''CalledProcessError'' ''message'')"
    by code_simp
  show ?thesis
    using h f working_directory_restored [OF h, of example_deployment] by simp
qed

subsection \<open>C5: required keys are compared in upper case\<close>

text \<open>
  C5: on a mapping and a list of required keys, \<^verbatim>\<open>_check_tfoutputs\<close> succeeds
  exactly when every required key, in upper case, is among the mapping's keys
  in upper case; otherwise it raises a \<^verbatim>\<open>KeyError\<close> whose text carries the
  mapping and the required keys, the absent ones among them. Required keys
  \<^verbatim>\<open>["Foo"]\<close> succeed against a mapping with key \<^verbatim>\<open>FOO\<close> and fail, naming \<^verbatim>\<open>Foo\<close>,
  against a mapping with the only key \<^verbatim>\<open>BAR\<close>.
\<close>

theorem check_tfoutputs_case_insensitive:
  "(Component_check_tfoutputs (JObj kvs) (Some required_keys) = Inr ()
      \<longleftrightarrow> (\<forall>k\<in>set required_keys. upper k \<in> set (map upper (map fst kvs))))
   \<and> (Component_check_tfoutputs (JObj kvs) (Some required_keys) \<noteq> Inr ()
      \<longrightarrow> Component_check_tfoutputs (JObj kvs) (Some required_keys) =
            Inl (KeyError [Txt ''Specified tf_outputs ['', FJson (JObj kvs),
                           Txt ''] is missing one or more required_keys ['',
                           FStrs required_keys, Txt '']'']))
   \<and> Component_check_tfoutputs (JObj [(''FOO'', v)]) (Some [''Foo'']) = Inr ()
   \<and> Component_check_tfoutputs (JObj [(''BAR'', v)]) (Some [''Foo'']) =
       Inl (KeyError [Txt ''Specified tf_outputs ['', FJson (JObj [(''BAR'', v)]),
                      Txt ''] is missing one or more required_keys ['',
                      FStrs [''Foo''], Txt '']''])"
proof -
  have a: "Component_check_tfoutputs (JObj kvs) (Some required_keys) = Inr ()
      \<longleftrightarrow> (\<forall>k\<in>set required_keys. upper k \<in> set (map upper (map fst kvs)))"
    by (cases "required_keys = []")
       (simp_all add: Component_check_tfoutputs_def check_required_loop_ok)
  have b: "Component_check_tfoutputs (JObj kvs) (Some required_keys) \<noteq> Inr ()
      \<longrightarrow> Component_check_tfoutputs (JObj kvs) (Some required_keys) =
            Inl (KeyError [Txt ''Specified tf_outputs ['', FJson (JObj kvs),
                           Txt ''] is missing one or more required_keys ['',
                           FStrs required_keys, Txt '']''])"
    using check_required_loop_err
            [of "JObj kvs" required_keys "map upper (map fst kvs)" required_keys]
    by (cases "required_keys = []") (simp_all add: Component_check_tfoutputs_def)
  have c: "Component_check_tfoutputs (JObj [(''FOO'', v)]) (Some [''Foo'']) = Inr ()"
    by (simp add: Component_check_tfoutputs_def upper_examples)
  have d: "Component_check_tfoutputs (JObj [(''BAR'', v)]) (Some [''Foo'']) =
       Inl (KeyError [Txt ''Specified tf_outputs ['', FJson (JObj [(''BAR'', v)]),
                      Txt ''] is missing one or more required_keys ['',
                      FStrs [''Foo''], Txt '']''])"
    by (simp add: Component_check_tfoutputs_def upper_examples)
  from a b c d show ?thesis by blast
qed

theorem check_tfoutputs_case_insensitive_witness:
  "upper ''vpc_id'' \<in> set (map upper (map fst
        [(''FOO'', JNull), (''Vpc_Id'', JStr ''vpc-1'')]))
   \<and> upper ''Foo'' \<in> set (map upper (map fst
        [(''FOO'', JNull), (''Vpc_Id'', JStr ''vpc-1'')]))
   \<and> Component_check_tfoutputs (JObj [(''FOO'', JNull), (''Vpc_Id'', JStr ''vpc-1'')])
        (Some [''vpc_id'', ''Foo'']) = Inr ()
   \<and> upper ''vpc_id'' \<notin> set (map upper (map fst [(''FOO'', JNull)]))
   \<and> Component_check_tfoutputs (JObj [(''FOO'', JNull)]) (Some [''vpc_id'', ''Foo''])
       \<noteq> Inr ()
   \<and> Component_check_tfoutputs (JObj [(''FOO'', JNull)]) (Some [''vpc_id'', ''Foo'']) =
       Inl (KeyError [Txt ''Specified tf_outputs ['', FJson (JObj [(''FOO'', JNull)]),
                      Txt ''] is missing one or more required_keys ['',
                      FStrs [''vpc_id'', ''Foo''], Txt '']''])"
proof -
  have u: "upper ''vpc_id'' = ''VPC_ID''" "upper ''Vpc_Id'' = ''VPC_ID''"
    by code_simp+
  have h1: "upper ''vpc_id'' \<in> set (map upper (map fst
        [(''FOO'', JNull), (''Vpc_Id'', JStr ''vpc-1'')]))"
    by (simp add: u upper_examples)
  have h2: "upper ''Foo'' \<in> set (map upper (map fst
        [(''FOO'', JNull), (''Vpc_Id'', JStr ''vpc-1'')]))"
    by (simp add: u upper_examples)
  have n: "upper ''vpc_id'' \<notin> set (map upper (map fst [(''FOO'', JNull)]))"
    by (simp add: u upper_examples)
  from h1 h2 have h: "\<forall>k\<in>set [''vpc_id'', ''Foo'']. upper k \<in> set (map upper (map fst
        [(''FOO'', JNull), (''Vpc_Id'', JStr ''vpc-1'')]))"
    by simp
  from n have n': "\<not> (\<forall>k\<in>set [''vpc_id'', ''Foo'']. upper k \<in> set (map upper (map fst
        [(''FOO'', JNull)])))"
    by simp
  from check_tfoutputs_case_insensitive
         [of "[(''FOO'', JNull), (''Vpc_Id'', JStr ''vpc-1'')]" "[''vpc_id'', ''Foo'']"]
       check_tfoutputs_case_insensitive [of "[(''FOO'', JNull)]" "[''vpc_id'', ''Foo'']"]
       h n' h1 h2 n
  show ?thesis by blast
qed

subsection \<open>C6: build runs the components in order and stops at the first failure\<close>

text \<open>
  C6: \<^verbatim>\<open>Deployment.build(force)\<close> calls each component's build with the deployment's
  name and the flag, in declared order. When the build of every component
  returns, each run on the state the one before it left, the call returns and
  leaves the state that running all of them in declared order leaves. When the
  build of the \<open>i\<close>-th component raises after those before it returned, the call
  raises that same error in the state that component left, whatever components
  follow: none of them is run. A call that returns has run every build. The
  error that \<^verbatim>\<open>exec_cmd\<close> raises for a command that exits with a non-zero status
  carries the command's captured output.
\<close>

theorem build_stops_at_first_failure:
  "((\<forall>i<length (d_components d).
        fst (c_build (d_components d ! i) (d_name d) nocache
               (foldl (build_step (d_name d) nocache) w (take i (d_components d)))) = Inr ())
      \<longrightarrow> Deployment_build d nocache w
            = (Inr (), foldl (build_step (d_name d) nocache) w (d_components d)))
   \<and> (i < length (d_components d)
      \<and> (\<forall>j<i. fst (c_build (d_components d ! j) (d_name d) nocache
                   (foldl (build_step (d_name d) nocache) w (take j (d_components d))))
                 = Inr ())
      \<and> c_build (d_components d ! i) (d_name d) nocache
            (foldl (build_step (d_name d) nocache) w (take i (d_components d))) = (Inl e, w2)
      \<longrightarrow> Deployment_build d nocache w = (Inl e, w2))
   \<and> (Deployment_build d nocache w = (Inr (), w')
      \<longrightarrow> w' = foldl (build_step (d_name d) nocache) w (d_components d))
   \<and> (os_run S (w_trace w @ [cmd_event cmd shell_mode inp w]) = Exited rc out \<and> rc \<noteq> 0
      \<and> (shell_mode \<or> split (strip cmd) \<noteq> [])
      \<longrightarrow> fst (exec_cmd S cmd True shell_mode inp w)
            = Inl (CalledProcessError rc (ev_cmd (cmd_event cmd shell_mode inp w)) out))"
proof -
  have a: "(\<forall>i<length (d_components d).
        fst (c_build (d_components d ! i) (d_name d) nocache
               (foldl (build_step (d_name d) nocache) w (take i (d_components d)))) = Inr ())
      \<longrightarrow> Deployment_build d nocache w
            = (Inr (), foldl (build_step (d_name d) nocache) w (d_components d))"
    using build_loop_all_ok [of "d_components d" "d_name d" nocache w]
    by (simp add: Deployment_build_def)
  have b: "i < length (d_components d)
      \<and> (\<forall>j<i. fst (c_build (d_components d ! j) (d_name d) nocache
                   (foldl (build_step (d_name d) nocache) w (take j (d_components d))))
                 = Inr ())
      \<and> c_build (d_components d ! i) (d_name d) nocache
            (foldl (build_step (d_name d) nocache) w (take i (d_components d))) = (Inl e, w2)
      \<longrightarrow> Deployment_build d nocache w = (Inl e, w2)"
    using build_loop_fails_at [of i "d_components d" "d_name d" nocache w e w2]
    by (simp add: Deployment_build_def)
  have c: "Deployment_build d nocache w = (Inr (), w')
      \<longrightarrow> w' = foldl (build_step (d_name d) nocache) w (d_components d)"
    using build_loop_ok_fold [of "d_name d" nocache "d_components d" w w']
    by (simp add: Deployment_build_def)
  have e: "os_run S (w_trace w @ [cmd_event cmd shell_mode inp w]) = Exited rc out \<and> rc \<noteq> 0
      \<and> (shell_mode \<or> split (strip cmd) \<noteq> [])
      \<longrightarrow> fst (exec_cmd S cmd True shell_mode inp w)
            = Inl (CalledProcessError rc (ev_cmd (cmd_event cmd shell_mode inp w)) out)"
    by (auto simp: exec_cmd_result Let_def cmd_event_def)
  from a b c e show ?thesis by blast
qed

theorem build_stops_at_first_failure_witness:
  "Deployment_build (Deployment ''prod'' ''infra'' [logging_build, logging_build] 60)
       False example_world
     = (Inr (), example_world\<lparr>w_log := [LogInfo [Txt ''built''], LogInfo [Txt ''built'']]\<rparr>)
   \<and> fst (c_build logging_build ''prod'' False example_world) = Inr ()
   \<and> fst (c_build failing_build ''prod'' False (logger_info [Txt ''built''] example_world))
       = Inl (CalledProcessError 1 (Argv [''docker'', ''build'', ''.'']) ''boom'')
   \<and> Deployment_build
        (Deployment ''prod'' ''infra'' [logging_build, failing_build, logging_build] 60)
        False example_world
       = (Inl (CalledProcessError 1 (Argv [''docker'', ''build'', ''.'']) ''boom''),
          snd (c_build failing_build ''prod'' False
                 (logger_info [Txt ''built''] example_world)))
   \<and> count_list
        (w_log (snd (Deployment_build
                 (Deployment ''prod'' ''infra'' [logging_build, failing_build, logging_build] 60)
                 False example_world)))
        (LogInfo [Txt ''built'']) = 1"
proof -
  let ?w1 = "logger_info [Txt ''built''] example_world"
  let ?e = "CalledProcessError 1 (Argv [''docker'', ''build'', ''.'']) ''boom''"
  let ?w2 = "snd (c_build failing_build ''prod'' False ?w1)"
  let ?good = "Deployment ''prod'' ''infra'' [logging_build, logging_build] 60 :: unit deployment"
  let ?bad = "Deployment ''prod'' ''infra'' [logging_build, failing_build, logging_build] 60
                :: unit deployment"
  have l: "c_build logging_build n f w = (Inr (), logger_info [Txt ''built''] w)" for n f w
    by (simp add: logging_build_def Component_def)
  have s: "build_step n f w logging_build = logger_info [Txt ''built''] w" for n f w
    by (simp add: build_step_def l)
  have b: "fst (c_build failing_build ''prod'' False ?w1) = Inl ?e"
    by code_simp
  then have b': "c_build failing_build ''prod'' False ?w1 = (Inl ?e, ?w2)"
    by (metis prod.collapse)
  have g: "\<forall>i<length (d_components ?good).
        fst (c_build (d_components ?good ! i) (d_name ?good) False
               (foldl (build_step (d_name ?good) False) example_world
                  (take i (d_components ?good)))) = Inr ()"
    by (simp add: Deployment_def l nth_Cons')
  have h1: "1 < length (d_components ?bad)" by (simp add: Deployment_def)
  have h2: "\<forall>j<1. fst (c_build (d_components ?bad ! j) (d_name ?bad) False
                   (foldl (build_step (d_name ?bad) False) example_world
                      (take j (d_components ?bad)))) = Inr ()"
    by (simp add: Deployment_def l)
  have h3: "c_build (d_components ?bad ! 1) (d_name ?bad) False
            (foldl (build_step (d_name ?bad) False) example_world
               (take 1 (d_components ?bad))) = (Inl ?e, ?w2)"
    using b' by (simp add: Deployment_def s)
  have r1: "Deployment_build ?good False example_world
              = (Inr (), foldl (build_step (d_name ?good) False) example_world
                           (d_components ?good))"
    using build_stops_at_first_failure [of ?good False example_world] g by blast
  have r2: "Deployment_build ?bad False example_world = (Inl ?e, ?w2)"
    using build_stops_at_first_failure [of ?bad False example_world 1 ?e ?w2] h1 h2 h3 by blast
  have f: "foldl (build_step (d_name ?good) False) example_world (d_components ?good)
             = example_world\<lparr>w_log := [LogInfo [Txt ''built''], LogInfo [Txt ''built'']]\<rparr>"
    by (simp add: Deployment_def s logger_info_def example_world_def)
  have c: "count_list (w_log ?w2) (LogInfo [Txt ''built'']) = 1"
    by code_simp
  from r1 r2 f c b l [of "''prod''" False example_world] show ?thesis by simp
qed

subsection \<open>C7: an unknown deployment name\<close>

text \<open>
  C7: every lifecycle verb, given a name that is not a key of the loaded
  deployments, raises \<^verbatim>\<open>SystemExit(1)\<close> after logging one error record that lists
  the valid names; the state is otherwise unchanged, so no method of a
  deployment has run.
\<close>

theorem unknown_deployment_exits_1:
  assumes "map_of (deployments self) deployment_name = None"
  shows "CLI_run S self v deployment_name w =
           (Inl (SystemExit 1),
            logger_error
              [Txt (''Invalid deployment specified: '' @ deployment_name @ nl
                    @ ''    Supported values: ''
                    @ join '', '' (map fst (deployments self))
                    @ nl @ tab @ ''Exception: ''),
               FErr (KeyError [Txt deployment_name])] w)"
  using CLI_run_guard_fails [OF CLI_guard_unknown [OF assms]] by simp

theorem unknown_deployment_exits_1_witness:
  "map_of (deployments (CLI_init [example_deployment, misplaced_deployment])) ''staging''
     = None
   \<and> map fst (deployments (CLI_init [example_deployment, misplaced_deployment])) = [''prod'']
   \<and> CLI_run example_sys (CLI_init [example_deployment, misplaced_deployment]) VDeploy
        ''staging'' example_world
     = (Inl (SystemExit 1),
        logger_error
          [Txt (''Invalid deployment specified: '' @ ''staging'' @ nl
                @ ''    Supported values: '' @ ''prod'' @ nl @ tab @ ''Exception: ''),
           FErr (KeyError [Txt ''staging''])] example_world)"
proof -
  let ?cli = "CLI_init [example_deployment, misplaced_deployment]"
  have k: "map fst (deployments ?cli) = [''prod'']"
    by (simp add: CLI_init_def example_deployment_def misplaced_deployment_def Deployment_def)
  have h: "map_of (deployments ?cli) ''staging'' = None"
    by (simp add: CLI_init_def example_deployment_def misplaced_deployment_def Deployment_def)
  from unknown_deployment_exits_1 [OF h, of example_sys VDeploy example_world] k h
  show ?thesis by simp
qed

subsection \<open>C8: a missing directory\<close>

text \<open>
  C8: every lifecycle verb, given the name of a loaded deployment whose
  directory, or the directory of one of its components, does not exist, raises
  \<^verbatim>\<open>SystemExit(1)\<close> with no external command run and the working directory
  untouched.
\<close>

theorem missing_path_exits_before_commands:
  assumes "map_of (deployments self) deployment_name = Some d"
      and "\<not> paths_exist S w d"
  shows "fst (CLI_run S self v deployment_name w) = Inl (SystemExit 1)
       \<and> w_trace (snd (CLI_run S self v deployment_name w)) = w_trace w
       \<and> w_cwd (snd (CLI_run S self v deployment_name w)) = w_cwd w"
proof -
  have "CLI_guard S self deployment_name w = CLI_check_paths S d w"
    using assms(1) CLI_check_paths_missing [OF assms(2)]
    by (simp add: CLI_guard_def dict_getitem_def)
  with CLI_check_paths_missing [OF assms(2)]
       CLI_run_guard_fails [of S self deployment_name w]
  show ?thesis by (simp add: logger_error_def)
qed

theorem missing_path_exits_before_commands_witness:
  "map_of (deployments (CLI_init [misplaced_deployment])) ''prod'' = Some misplaced_deployment
   \<and> \<not> paths_exist example_sys example_world misplaced_deployment
   \<and> fst (CLI_run example_sys (CLI_init [misplaced_deployment]) VApply ''prod'' example_world)
       = Inl (SystemExit 1)
   \<and> w_trace (snd (CLI_run example_sys (CLI_init [misplaced_deployment]) VApply ''prod''
                     example_world)) = w_trace example_world
   \<and> w_cwd (snd (CLI_run example_sys (CLI_init [misplaced_deployment]) VApply ''prod''
                   example_world)) = w_cwd example_world"
proof -
  have h: "map_of (deployments (CLI_init [misplaced_deployment])) ''prod''
             = Some misplaced_deployment"
    by (simp add: CLI_init_def misplaced_deployment_def Deployment_def)
  have p: "\<not> paths_exist example_sys example_world misplaced_deployment"
    by (simp add: paths_exist_def os_path_isdir_def example_sys_def example_world_def
          example_fs_def misplaced_deployment_def Deployment_def)
  from missing_path_exits_before_commands [OF h p, of VApply] h p
  show ?thesis by simp
qed

subsection \<open>C9: when exec_cmd raises\<close>





subsection \<open>C10: no required keys\<close>

text \<open>
  C10: when the list of required keys is \<^verbatim>\<open>None\<close> or empty, \<^verbatim>\<open>_check_tfoutputs\<close>
  succeeds whatever the mapping is, also when the mapping is \<^verbatim>\<open>None\<close>: the
  \<^verbatim>\<open>AttributeError\<close> of \<^verbatim>\<open>None.keys()\<close> is not raised.
\<close>

theorem check_tfoutputs_no_required_keys:
  assumes "required_keys = None \<or> required_keys = Some []"
  shows "Component_check_tfoutputs tf_outputs required_keys = Inr ()
       \<and> Component_check_tfoutputs JNull required_keys = Inr ()
       \<and> Component_check_tfoutputs tf_outputs required_keys \<noteq> Inl (AttributeError cls attr)"
  using assms by (auto simp: Component_check_tfoutputs_def)

theorem check_tfoutputs_no_required_keys_witness:
  "((Some [] :: string list option) = None \<or> (Some [] :: string list option) = Some [])
   \<and> Component_check_tfoutputs JNull (Some []) = Inr ()
   \<and> Component_check_tfoutputs JNull None = Inr ()
   \<and> Component_check_tfoutputs JNull (Some [''Foo''])
       = Inl (AttributeError ''NoneType'' ''keys'')"
proof -
  have h: "(Some [] :: string list option) = None \<or> (Some [] :: string list option) = Some []"
    by simp
  have n: "(None :: string list option) = None \<or> (None :: string list option) = Some []"
    by simp
  have e: "Component_check_tfoutputs JNull (Some [''Foo''])
             = Inl (AttributeError ''NoneType'' ''keys'')"
    by (simp add: Component_check_tfoutputs_def)
  from check_tfoutputs_no_required_keys [OF h, of JNull]
       check_tfoutputs_no_required_keys [OF n, of JNull] h e
  show ?thesis by simp
qed

end
